theory Spec2Isabelle
  imports Complex_Main "HOL-Library.AList"
begin

section \<open>The Iris prediction API (app/api.py)\<close>

text \<open>
  The module keeps one global, \<open>model_wrappers_list\<close>, filled by \<open>lifespan\<close> before the
  application serves and cleared after it stops.  Three endpoints read it; each endpoint
  is a handler wrapped by the decorator \<open>construct_response\<close>.

  Python values that reach a response are modelled by \<open>pyval\<close>; a Python \<open>dict\<close> is an
  association list in insertion order.  The numbers of a payload are never computed
  with, only passed on, so their type is the parameter \<open>'f\<close>.  Every exception the
  module can raise is a value of \<open>py_error\<close>, and a function that may raise returns
  \<open>py_error + 'a\<close>.
\<close>

subsection \<open>Values, errors, HTTP status\<close>

datatype 'f pyval =
    PStr string
  | PInt int
  | PFloat 'f
  | PList "'f pyval list"
  | PDict "(string \<times> 'f pyval) list"

type_synonym 'f dict = "(string \<times> 'f pyval) list"

datatype py_error =
    KeyError string
  | IndexError
  | ValueError int
  | Exception string

text \<open>
  \<open>KeyError k\<close>: a dictionary has no key \<open>k\<close>.  \<open>IndexError\<close>: \<open>prediction[0]\<close> on an empty
  array.  \<open>ValueError i\<close>: \<open>IrisType(i)\<close> for an \<open>i\<close> that is no member of the enumeration.
  \<open>Exception s\<close>: anything raised by code outside the module (the classifier, \<open>pickle\<close>,
  the file system).
\<close>

datatype HTTPStatus = OK | BAD_REQUEST

fun status_value :: "HTTPStatus \<Rightarrow> int" where
  "status_value OK = 200"
| "status_value BAD_REQUEST = 400"

fun phrase :: "HTTPStatus \<Rightarrow> string" where
  "phrase OK = ''OK''"
| "phrase BAD_REQUEST = ''Bad Request''"

text \<open>\<open>"k" in d\<close> and \<open>d["k"]\<close> on a Python dictionary.\<close>

definition has_key :: "string \<Rightarrow> 'f dict \<Rightarrow> bool" where
  "has_key k d = (case map_of d k of None \<Rightarrow> False | Some _ \<Rightarrow> True)"

definition getitem :: "'f dict \<Rightarrow> string \<Rightarrow> py_error + 'f pyval" where
  "getitem d k = (case map_of d k of None \<Rightarrow> Inl (KeyError k) | Some v \<Rightarrow> Inr v)"

subsection \<open>Requests, payloads, model bundles\<close>

text \<open>Of a \<open>Request\<close> the module reads \<open>request.method\<close> (the field \<open>http_method\<close>) and
  \<open>request.url._url\<close> (the field \<open>url\<close>).\<close>

record request =
  http_method :: string
  url :: string

text \<open>
  \<open>PredictPayload\<close> comes from \<open>app.schemas\<close>; the handler reads its four fields.  The
  framework validates the body before the handler runs, so the handler only ever sees
  a complete payload.
\<close>

record 'f PredictPayload =
  sepal_length :: 'f
  sepal_width :: 'f
  petal_length :: 'f
  petal_width :: 'f

text \<open>
  A classifier is the object under the key \<open>"model"\<close>: its \<open>predict\<close> takes a list of
  samples and returns an array with one class index per sample, or raises.
\<close>

type_synonym 'f classifier = "'f list list \<Rightarrow> py_error + int list"

text \<open>
  A model wrapper is the pickled dictionary with the keys \<open>"type"\<close>, \<open>"model"\<close>,
  \<open>"params"\<close> and \<open>"metrics"\<close> (the Model Bundle of the data model), its type a
  string.  The record fixes this shape: a pickled object that lacks one of the keys
  is no model wrapper, and the \<open>KeyError\<close> it would cause in a handler is outside the
  model.
\<close>

record 'f model_wrapper =
  type :: string
  model :: "'f classifier"
  params :: "'f pyval"
  metrics :: "'f pyval"

text \<open>
  \<open>IrisType\<close> comes from \<open>app.schemas\<close>, which is not part of the sources at hand: the
  enumeration is a parameter \<open>IrisType\<close> of the handler, mapping a class index to the
  name of its member, \<open>None\<close> where the enumeration has no member with that value
  (there \<open>IrisType(i)\<close> raises \<open>ValueError\<close>).
\<close>

type_synonym iris_enum = "int \<Rightarrow> string option"

subsection \<open>The decorator\<close>

text \<open>
  \<open>construct_response f\<close> calls the handler and builds the envelope.  \<open>now\<close> is the value of
  \<open>datetime.now().isoformat()\<close> at the call.  An exception of the handler passes through.
\<close>

definition construct_response ::
  "(request \<Rightarrow> py_error + 'f dict) \<Rightarrow> string \<Rightarrow> request \<Rightarrow> py_error + 'f dict" where
  "construct_response f now request =
     (case f request of
        Inl e \<Rightarrow> Inl e
      | Inr results \<Rightarrow>
          (case getitem results ''message'' of
             Inl e \<Rightarrow> Inl e
           | Inr message \<Rightarrow>
               (case getitem results ''status-code'' of
                  Inl e \<Rightarrow> Inl e
                | Inr status_code \<Rightarrow>
                    (let response =
                       [(''message'', message),
                        (''method'', PStr (http_method request)),
                        (''status-code'', status_code),
                        (''timestamp'', PStr now),
                        (''url'', PStr (url request))]
                     in if has_key ''data'' results
                        then (case getitem results ''data'' of
                                Inl e \<Rightarrow> Inl e
                              | Inr d \<Rightarrow> Inr (AList.update ''data'' d response))
                        else Inr response))))"

subsection \<open>The handlers\<close>

definition index :: "request \<Rightarrow> py_error + 'f dict" where
  "index request =
     Inr [(''message'', PStr (phrase OK)),
          (''status-code'', PInt (status_value OK)),
          (''data'', PDict [(''message'',
             PStr ''Welcome to IRIS classifier! Please, read the `/docs`!'')])]"

definition get_models_list :: "'f model_wrapper list \<Rightarrow> request \<Rightarrow> py_error + 'f dict" where
  "get_models_list model_wrappers_list request =
     (let available_models =
        map (\<lambda>model. PDict [(''type'', PStr (type model)),
                            (''parameters'', params model),
                            (''accuracy'', metrics model)])
            model_wrappers_list
      in Inr [(''message'', PStr (phrase OK)),
              (''status-code'', PInt (status_value OK)),
              (''data'', PList available_models)])"

text \<open>Line 128: \<open>next((m for m in model_wrappers_list if m["type"] == type), None)\<close>.\<close>

definition find_model_wrapper ::
  "'f model_wrapper list \<Rightarrow> string \<Rightarrow> 'f model_wrapper option" where
  "find_model_wrapper model_wrappers_list ty = find (\<lambda>m. type m = ty) model_wrappers_list"

text \<open>
  A wrapper that was found is a dictionary with a key, hence true in \<open>if model_wrapper\<close>;
  \<open>None\<close> is false.  \<open>int\<close> is the identity on a class index.
\<close>

definition predict ::
  "iris_enum \<Rightarrow> 'f model_wrapper list \<Rightarrow> request \<Rightarrow> string \<Rightarrow> 'f PredictPayload
     \<Rightarrow> py_error + 'f dict" where
  "predict IrisType model_wrappers_list request ty payload =
     (let features = [[sepal_length payload, sepal_width payload,
                       petal_length payload, petal_width payload]]
      in case find_model_wrapper model_wrappers_list ty of
           Some model_wrapper \<Rightarrow>
             (case model model_wrapper features of
                Inl e \<Rightarrow> Inl e
              | Inr [] \<Rightarrow> Inl IndexError
              | Inr (prediction # _) \<Rightarrow>
                  (case IrisType prediction of
                     None \<Rightarrow> Inl (ValueError prediction)
                   | Some predicted_type \<Rightarrow>
                       Inr [(''message'', PStr (phrase OK)),
                            (''status-code'', PInt (status_value OK)),
                            (''data'', PDict
                               [(''model-type'', PStr (type model_wrapper)),
                                (''features'', PDict
                                   [(''sepal_length'', PFloat (sepal_length payload)),
                                    (''sepal_width'', PFloat (sepal_width payload)),
                                    (''petal_length'', PFloat (petal_length payload)),
                                    (''petal_width'', PFloat (petal_width payload))]),
                                (''prediction'', PInt prediction),
                                (''predicted_type'', PStr predicted_type)])]))
         | None \<Rightarrow>
             Inr [(''message'', PStr ''Model not found''),
                  (''status-code'', PInt (status_value BAD_REQUEST))])"

subsection \<open>The routes\<close>

text \<open>
  \<open>GET /\<close>, \<open>GET /models\<close> and \<open>POST /models/{type}\<close> with its validated body.  \<open>serve\<close> is
  what the route returns: the decorated handler applied to the request.
\<close>

datatype 'f call =
    Get_index
  | Get_models
  | Post_models string "'f PredictPayload"

fun handler ::
  "iris_enum \<Rightarrow> 'f model_wrapper list \<Rightarrow> 'f call \<Rightarrow> request \<Rightarrow> py_error + 'f dict" where
  "handler IrisType ws Get_index = index"
| "handler IrisType ws Get_models = get_models_list ws"
| "handler IrisType ws (Post_models ty payload) = (\<lambda>request. predict IrisType ws request ty payload)"

definition serve ::
  "iris_enum \<Rightarrow> 'f model_wrapper list \<Rightarrow> string \<Rightarrow> 'f call \<Rightarrow> request \<Rightarrow> py_error + 'f dict" where
  "serve IrisType ws now c request = construct_response (handler IrisType ws c) now request"

text \<open>
  The path operation decorators of lines 76, 89 and 112 (\<open>@app.get("/", tags=...)\<close>,
  \<open>@app.get("/models", tags=...)\<close>, \<open>@app.post("/models/{type}", tags=...)\<close>) give a
  path and tags, and none of them a \<open>status_code\<close>.  A handler returns a dictionary and
  never a response object, so the status of the HTTP response is the one of the
  decorator, or the default of the framework, 200, when the decorator gives none; the
  dictionary is the body.  The \<open>status-code\<close> inside the dictionary is a field of the
  body and does not reach the status of the response.
\<close>

fun route_status_code :: "'f call \<Rightarrow> HTTPStatus option" where
  "route_status_code Get_index = None"
| "route_status_code Get_models = None"
| "route_status_code (Post_models ty payload) = None"

definition respond ::
  "iris_enum \<Rightarrow> 'f model_wrapper list \<Rightarrow> string \<Rightarrow> 'f call \<Rightarrow> request
     \<Rightarrow> py_error + (int \<times> 'f dict)" where
  "respond IrisType ws now c request =
     (case serve IrisType ws now c request of
        Inl e \<Rightarrow> Inl e
      | Inr body \<Rightarrow>
          Inr (case route_status_code c of
                 None \<Rightarrow> status_value OK
               | Some s \<Rightarrow> status_value s,
               body))"

definition response_status :: "py_error + (int \<times> 'f dict) \<Rightarrow> int option" where
  "response_status r = (case r of Inl e \<Rightarrow> None | Inr (s, body) \<Rightarrow> Some s)"

subsection \<open>The lifespan\<close>

text \<open>
  Of a path in \<open>MODELS_DIR\<close> the lifespan reads \<open>suffix\<close>, and then opens the file and
  unpickles it: \<open>unpickled\<close> is the wrapper that \<open>open\<close> and \<open>pickle.load\<close> produce for
  the path, or the exception one of them raises.
\<close>

record 'f path =
  suffix :: string
  unpickled :: "py_error + 'f model_wrapper"

text \<open>
  The loop of lines 31 to 34.  It appends to the global list in place, so when a file
  fails the wrappers appended before it stay in the list: the result is the list and
  the exception raised, if any.
\<close>

fun load_models ::
  "'f path list \<Rightarrow> 'f model_wrapper list \<Rightarrow> 'f model_wrapper list \<times> py_error option" where
  "load_models [] model_wrappers_list = (model_wrappers_list, None)"
| "load_models (p # model_paths) model_wrappers_list =
     (case unpickled p of
        Inl e \<Rightarrow> (model_wrappers_list, Some e)
      | Inr model_wrapper \<Rightarrow> load_models model_paths (model_wrappers_list @ [model_wrapper]))"

text \<open>
  The lifespan up to its \<open>yield\<close>.  \<open>iterdir\<close> is what \<open>MODELS_DIR.iterdir()\<close> gives: the
  paths of the directory in the order of the listing, or an exception.
\<close>

definition lifespan_startup ::
  "py_error + 'f path list \<Rightarrow> 'f model_wrapper list
     \<Rightarrow> 'f model_wrapper list \<times> py_error option" where
  "lifespan_startup iterdir model_wrappers_list =
     (case iterdir of
        Inl e \<Rightarrow> (model_wrappers_list, Some e)
      | Inr filenames \<Rightarrow>
          load_models (filter (\<lambda>filename. suffix filename = ''.pkl'') filenames)
            model_wrappers_list)"

text \<open>The lifespan after its \<open>yield\<close>: \<open>model_wrappers_list.clear()\<close>.\<close>

definition lifespan_shutdown :: "'f model_wrapper list \<Rightarrow> 'f model_wrapper list" where
  "lifespan_shutdown model_wrappers_list = []"

subsection \<open>The application\<close>

text \<open>
  The framework enters the lifespan once before it accepts requests and leaves it when
  it stops; an exception before the \<open>yield\<close> ends the startup, and no request is
  served.  The state is the global list and the phase of the application.
\<close>

datatype phase = Not_started | Serving | Failed py_error | Stopped

record 'f app =
  model_wrappers_list :: "'f model_wrapper list"
  phase :: phase

definition initial_app :: "'f app" where
  "initial_app = \<lparr>model_wrappers_list = [], phase = Not_started\<rparr>"

datatype 'f event =
    Startup "py_error + 'f path list"
  | Request string "'f call" request
  | Shutdown

fun is_request :: "'f event \<Rightarrow> bool" where
  "is_request (Request now c request) = True"
| "is_request _ = False"

text \<open>One event: the new state, and the outcome of the route when a request was served.\<close>

fun app_step ::
  "iris_enum \<Rightarrow> 'f event \<Rightarrow> 'f app \<Rightarrow> 'f app \<times> (py_error + 'f dict) option" where
  "app_step IrisType (Startup iterdir) a =
     (if phase a = Not_started
      then (case lifespan_startup iterdir (model_wrappers_list a) of
              (ws, None) \<Rightarrow> (a\<lparr>model_wrappers_list := ws, phase := Serving\<rparr>, None)
            | (ws, Some e) \<Rightarrow> (a\<lparr>model_wrappers_list := ws, phase := Failed e\<rparr>, None))
      else (a, None))"
| "app_step IrisType (Request now c request) a =
     (if phase a = Serving
      then (a, Some (serve IrisType (model_wrappers_list a) now c request))
      else (a, None))"
| "app_step IrisType Shutdown a =
     (if phase a = Serving
      then (a\<lparr>model_wrappers_list := lifespan_shutdown (model_wrappers_list a),
              phase := Stopped\<rparr>, None)
      else (a, None))"

fun run :: "iris_enum \<Rightarrow> 'f event list \<Rightarrow> 'f app \<Rightarrow> 'f app" where
  "run IrisType [] a = a"
| "run IrisType (ev # evs) a = run IrisType evs (fst (app_step IrisType ev a))"

subsection \<open>Reading a response\<close>

text \<open>A field of an envelope, and a field of its \<open>data\<close> object, when they exist.\<close>

definition field :: "string \<Rightarrow> py_error + 'f dict \<Rightarrow> 'f pyval option" where
  "field k r = (case r of Inl e \<Rightarrow> None | Inr response \<Rightarrow> map_of response k)"

definition data_field :: "string \<Rightarrow> py_error + 'f dict \<Rightarrow> 'f pyval option" where
  "data_field k r =
     (case field ''data'' r of
        Some (PDict d) \<Rightarrow> map_of d k
      | _ \<Rightarrow> None)"

definition keys :: "'f dict \<Rightarrow> string list" where
  "keys d = map fst d"

text \<open>
  An example of the enumeration and of a registry, for evaluating the definitions: the
  three species of the Iris data set under the indices 0, 1 and 2, and classifiers
  that answer with a fixed array or raise.
\<close>

definition iris_example :: iris_enum where
  "iris_example i =
     (if i = 0 then Some ''setosa''
      else if i = 1 then Some ''versicolor''
      else if i = 2 then Some ''virginica''
      else None)"

definition wrapper_example :: "string \<Rightarrow> (py_error + int list) \<Rightarrow> real model_wrapper" where
  "wrapper_example ty answer =
     \<lparr>type = ty, model = (\<lambda>features. answer),
      params = PDict [(''max_depth'', PInt 3)],
      metrics = PDict [(''accuracy'', PFloat 0.95)]\<rparr>"

definition payload_example :: "real PredictPayload" where
  "payload_example =
     \<lparr>sepal_length = 5.1, sepal_width = 3.5, petal_length = 1.4, petal_width = 0.2\<rparr>"

definition request_example :: "string \<Rightarrow> string \<Rightarrow> request" where
  "request_example m u = \<lparr>http_method = m, url = u\<rparr>"

text \<open>
  Two files for evaluating the lifespan: a pickled wrapper, and a file that cannot be
  unpickled.
\<close>

definition pickle_example :: "string \<Rightarrow> int \<Rightarrow> real path" where
  "pickle_example ty i = \<lparr>suffix = ''.pkl'', unpickled = Inr (wrapper_example ty (Inr [i]))\<rparr>"

definition corrupt_example :: "string \<Rightarrow> real path" where
  "corrupt_example sfx = \<lparr>suffix = sfx, unpickled = Inl (Exception ''invalid load key'')\<rparr>"

section \<open>Properties\<close>

subsection \<open>The decorator\<close>

lemma construct_response_Inr:
  assumes "construct_response f now request = Inr env"
  shows "\<exists>results message status_code. f request = Inr results
       \<and> map_of results ''message'' = Some message
       \<and> map_of results ''status-code'' = Some status_code
       \<and> env = [(''message'', message), (''method'', PStr (http_method request)),
                (''status-code'', status_code), (''timestamp'', PStr now),
                (''url'', PStr (url request))]
               @ (case map_of results ''data'' of None \<Rightarrow> [] | Some d \<Rightarrow> [(''data'', d)])"
  using assms
  by (auto simp: construct_response_def getitem_def has_key_def Let_def
           split: sum.splits option.splits if_splits)

subsection \<open>The handlers\<close>

lemma find_model_wrapper_None:
  "find_model_wrapper ws ty = None \<longleftrightarrow> ty \<notin> type ` set ws"
  by (auto simp: find_model_wrapper_def find_None_iff)

lemma find_model_wrapper_type:
  "find_model_wrapper ws ty = Some m \<Longrightarrow> type m = ty \<and> m \<in> set ws"
  by (auto simp: find_model_wrapper_def find_Some_iff)

lemma find_model_wrapper_first:
  assumes "\<forall>x \<in> set pre. type x \<noteq> ty" and "type m = ty"
  shows "find_model_wrapper (pre @ m # post) ty = Some m"
  using assms by (induction pre) (auto simp: find_model_wrapper_def)

lemma predict_found:
  assumes "find_model_wrapper ws ty = Some m"
    and "model m [[sepal_length p, sepal_width p, petal_length p, petal_width p]] = Inr (i # rest)"
    and "IrisType i = Some label"
  shows "predict IrisType ws request ty p =
     Inr [(''message'', PStr ''OK''),
          (''status-code'', PInt 200),
          (''data'', PDict
             [(''model-type'', PStr ty),
              (''features'', PDict
                 [(''sepal_length'', PFloat (sepal_length p)),
                  (''sepal_width'', PFloat (sepal_width p)),
                  (''petal_length'', PFloat (petal_length p)),
                  (''petal_width'', PFloat (petal_width p))]),
              (''prediction'', PInt i),
              (''predicted_type'', PStr label)])]"
  using assms find_model_wrapper_type [OF assms(1)]
  by (simp add: predict_def)

lemma predict_not_found:
  assumes "find_model_wrapper ws ty = None"
  shows "predict IrisType ws request ty p =
     Inr [(''message'', PStr ''Model not found''), (''status-code'', PInt 400)]"
  using assms by (simp add: predict_def)

lemma predict_Inr_cases:
  assumes "predict IrisType ws request ty p = Inr results"
  shows "(find_model_wrapper ws ty = None
          \<and> results = [(''message'', PStr ''Model not found''), (''status-code'', PInt 400)])
       \<or> (\<exists>m i rest label. find_model_wrapper ws ty = Some m
            \<and> model m [[sepal_length p, sepal_width p, petal_length p, petal_width p]]
                = Inr (i # rest)
            \<and> IrisType i = Some label
            \<and> results =
               [(''message'', PStr ''OK''),
                (''status-code'', PInt 200),
                (''data'', PDict
                   [(''model-type'', PStr ty),
                    (''features'', PDict
                       [(''sepal_length'', PFloat (sepal_length p)),
                        (''sepal_width'', PFloat (sepal_width p)),
                        (''petal_length'', PFloat (petal_length p)),
                        (''petal_width'', PFloat (petal_width p))]),
                    (''prediction'', PInt i),
                    (''predicted_type'', PStr label)])])"
proof (cases "find_model_wrapper ws ty")
  case None
  with assms show ?thesis by (simp add: predict_def)
next
  case (Some m)
  then have ty: "type m = ty" by (simp add: find_model_wrapper_type)
  from assms Some ty show ?thesis
    by (auto simp: predict_def split: sum.splits list.splits option.splits)
qed

subsection \<open>The lifespan\<close>

lemma load_models_prefix:
  "\<exists>loaded. fst (load_models ps ws) = ws @ loaded"
proof (induction ps arbitrary: ws)
  case Nil
  show ?case by simp
next
  case (Cons p ps)
  show ?case
  proof (cases "unpickled p")
    case (Inl e)
    then show ?thesis by simp
  next
    case (Inr m)
    from Cons [of "ws @ [m]"] obtain loaded
      where "fst (load_models ps (ws @ [m])) = (ws @ [m]) @ loaded" by blast
    with Inr show ?thesis by simp
  qed
qed

lemma load_models_success:
  "load_models ps ws = (ws', None) \<Longrightarrow>
     \<exists>loaded. ws' = ws @ loaded \<and> map Inr loaded = map unpickled ps"
proof (induction ps arbitrary: ws)
  case Nil
  then show ?case by simp
next
  case (Cons p ps)
  show ?case
  proof (cases "unpickled p")
    case (Inl e)
    with Cons.prems show ?thesis by simp
  next
    case (Inr m)
    with Cons.prems have "load_models ps (ws @ [m]) = (ws', None)" by simp
    from Cons.IH [OF this] obtain loaded
      where "ws' = (ws @ [m]) @ loaded" and "map Inr loaded = map unpickled ps" by blast
    with Inr have "ws' = ws @ (m # loaded) \<and> map Inr (m # loaded) = map unpickled (p # ps)"
      by simp
    then show ?thesis by blast
  qed
qed

subsection \<open>The application\<close>

lemma app_step_request:
  "is_request ev \<Longrightarrow> fst (app_step IrisType ev a) = a"
  by (cases ev) simp_all

lemma run_requests:
  "\<forall>ev \<in> set evs. is_request ev \<Longrightarrow> run IrisType evs a = a"
  by (induction evs arbitrary: a) (simp_all add: app_step_request)

lemma run_append:
  "run IrisType (evs @ evs') a = run IrisType evs' (run IrisType evs a)"
  by (induction evs arbitrary: a) simp_all

subsection \<open>More on the routes and the application\<close>

lemma handler_Inr_fields:
  assumes "handler IrisType ws c request = Inr results"
  shows "\<exists>message status_code. map_of results ''message'' = Some message
           \<and> map_of results ''status-code'' = Some status_code"
proof (cases c)
  case Get_index
  with assms show ?thesis by (auto simp: index_def)
next
  case Get_models
  with assms show ?thesis by (auto simp: get_models_list_def)
next
  case (Post_models ty p)
  with assms have "predict IrisType ws request ty p = Inr results" by simp
  from predict_Inr_cases [OF this] show ?thesis by auto
qed

lemma handler_Inl_post:
  "handler IrisType ws c request = Inl e \<Longrightarrow> \<exists>ty p. c = Post_models ty p"
  by (cases c) (simp_all add: index_def get_models_list_def)

lemma serve_Inl:
  assumes "serve IrisType ws now c request = Inl e"
  shows "handler IrisType ws c request = Inl e"
proof (cases "handler IrisType ws c request")
  case (Inl e')
  with assms show ?thesis by (simp add: serve_def construct_response_def)
next
  case (Inr results)
  from handler_Inr_fields [OF Inr] obtain message status_code
    where "map_of results ''message'' = Some message"
      and "map_of results ''status-code'' = Some status_code" by blast
  with Inr assms show ?thesis
    by (simp add: serve_def construct_response_def getitem_def has_key_def
        split: option.splits)
qed

lemma predict_cong:
  "find_model_wrapper ws ty = find_model_wrapper ws' ty \<Longrightarrow>
   predict IrisType ws request ty p = predict IrisType ws' request ty p"
  by (simp add: predict_def)

lemma serve_post_request:
  "field ''data'' (serve IrisType ws now (Post_models ty p) request)
     = field ''data'' (serve IrisType ws now' (Post_models ty p) request')
   \<and> (serve IrisType ws now (Post_models ty p) request = Inl e
        \<longleftrightarrow> serve IrisType ws now' (Post_models ty p) request' = Inl e)"
proof (cases "predict IrisType ws request ty p")
  case (Inl e')
  moreover from Inl have "predict IrisType ws request' ty p = Inl e'"
    by (simp add: predict_def)
  ultimately show ?thesis
    by (simp add: serve_def construct_response_def field_def)
next
  case (Inr results)
  then have r': "predict IrisType ws request' ty p = Inr results"
    by (simp add: predict_def)
  from predict_Inr_cases [OF Inr] show ?thesis
  proof
    assume "find_model_wrapper ws ty = None
          \<and> results = [(''message'', PStr ''Model not found''), (''status-code'', PInt 400)]"
    with Inr r' show ?thesis
      by (simp add: serve_def construct_response_def getitem_def has_key_def field_def)
  next
    assume "\<exists>m i rest label. find_model_wrapper ws ty = Some m
            \<and> model m [[sepal_length p, sepal_width p, petal_length p, petal_width p]]
                = Inr (i # rest)
            \<and> IrisType i = Some label
            \<and> results =
               [(''message'', PStr ''OK''),
                (''status-code'', PInt 200),
                (''data'', PDict
                   [(''model-type'', PStr ty),
                    (''features'', PDict
                       [(''sepal_length'', PFloat (sepal_length p)),
                        (''sepal_width'', PFloat (sepal_width p)),
                        (''petal_length'', PFloat (petal_length p)),
                        (''petal_width'', PFloat (petal_width p))]),
                    (''prediction'', PInt i),
                    (''predicted_type'', PStr label)])]"
    then obtain i label where "results =
               [(''message'', PStr ''OK''),
                (''status-code'', PInt 200),
                (''data'', PDict
                   [(''model-type'', PStr ty),
                    (''features'', PDict
                       [(''sepal_length'', PFloat (sepal_length p)),
                        (''sepal_width'', PFloat (sepal_width p)),
                        (''petal_length'', PFloat (petal_length p)),
                        (''petal_width'', PFloat (petal_width p))]),
                    (''prediction'', PInt i),
                    (''predicted_type'', PStr label)])]" by blast
    with Inr r' show ?thesis
      by (simp add: serve_def construct_response_def getitem_def has_key_def field_def)
  qed
qed

lemma load_models_error:
  "snd (load_models ps ws)
     = map_option (\<lambda>q. projl (unpickled q)) (find (\<lambda>q. isl (unpickled q)) ps)"
proof (induction ps arbitrary: ws)
  case Nil
  show ?case by simp
next
  case (Cons p ps)
  show ?case
  proof (cases "unpickled p")
    case (Inl e)
    then show ?thesis by simp
  next
    case (Inr m)
    with Cons [of "ws @ [m]"] show ?thesis by simp
  qed
qed

lemma app_step_not_serving:
  "phase a \<noteq> Serving \<Longrightarrow> phase a \<noteq> Not_started \<Longrightarrow> fst (app_step IrisType ev a) = a"
  by (cases ev) simp_all

lemma run_not_serving:
  "phase a \<noteq> Serving \<Longrightarrow> phase a \<noteq> Not_started \<Longrightarrow> run IrisType evs a = a"
  by (induction evs arbitrary: a) (simp_all add: app_step_not_serving)

lemma app_step_cleared:
  assumes "model_wrappers_list (fst (app_step IrisType ev a)) = []"
    and "model_wrappers_list a \<noteq> []"
  shows "ev = Shutdown"
proof (cases ev)
  case (Startup iterdir)
  show ?thesis
  proof (cases "phase a = Not_started")
    case False
    with assms Startup show ?thesis by simp
  next
    case True
    have "\<exists>loaded. fst (lifespan_startup iterdir (model_wrappers_list a))
        = model_wrappers_list a @ loaded"
      using load_models_prefix [of _ "model_wrappers_list a"]
      by (cases iterdir) (simp_all add: lifespan_startup_def)
    then obtain loaded where "fst (lifespan_startup iterdir (model_wrappers_list a))
        = model_wrappers_list a @ loaded" by blast
    with assms Startup True show ?thesis
      by (cases "lifespan_startup iterdir (model_wrappers_list a)")
         (auto split: option.splits)
  qed
next
  case (Request now c request)
  with assms show ?thesis by (simp split: if_splits)
next
  case Shutdown
  then show ?thesis .
qed

section \<open>The claims\<close>

text \<open>
  C1, as stated, fails: a type present in the registry does not make the response OK.
  With a wrapper whose classifier answers with the class index 3, outside the
  enumeration of three species, and with one whose classifier raises, the route raises
  and returns no envelope.
\<close>

theorem predict_present_counterexample:
  "''tree'' \<in> type ` set [wrapper_example ''tree'' (Inr [3])]
   \<and> serve iris_example [wrapper_example ''tree'' (Inr [3])] ''2021-11-04T10:00:00''
       (Post_models ''tree'' payload_example)
       (request_example ''POST'' ''http://localhost:5000/models/tree'')
     = Inl (ValueError 3)
   \<and> field ''status-code''
       (serve iris_example [wrapper_example ''tree'' (Inr [3])] ''2021-11-04T10:00:00''
          (Post_models ''tree'' payload_example)
          (request_example ''POST'' ''http://localhost:5000/models/tree''))
     \<noteq> Some (PInt 200)
   \<and> ''tree'' \<in> type ` set [wrapper_example ''tree'' (Inl (Exception ''predict failed''))]
   \<and> serve iris_example [wrapper_example ''tree'' (Inl (Exception ''predict failed''))]
       ''2021-11-04T10:00:00'' (Post_models ''tree'' payload_example)
       (request_example ''POST'' ''http://localhost:5000/models/tree'')
     = Inl (Exception ''predict failed'')
   \<and> field ''status-code''
       (serve iris_example [wrapper_example ''tree'' (Inl (Exception ''predict failed''))]
          ''2021-11-04T10:00:00'' (Post_models ''tree'' payload_example)
          (request_example ''POST'' ''http://localhost:5000/models/tree''))
     \<noteq> Some (PInt 200)"
  by (simp add: serve_def construct_response_def predict_def find_model_wrapper_def
      wrapper_example_def iris_example_def payload_example_def request_example_def
      field_def)

text \<open>
  C1, amended: when the requested type is in the registry, and the classifier of the
  first wrapper of that type answers the features of the payload with an array whose
  first class index is a member of the enumeration, \<open>POST /models/{type}\<close> returns an
  envelope with the status code 200, the message OK and a \<open>data\<close> object holding the
  model type, the features of the payload, the class index and its label, which is a
  name of the enumeration.
\<close>

theorem predict_present_ok:
  assumes "find_model_wrapper ws ty = Some m"
    and "model m [[sepal_length p, sepal_width p, petal_length p, petal_width p]] = Inr (i # rest)"
    and "IrisType i = Some label"
  shows "ty \<in> type ` set ws
    \<and> label \<in> ran IrisType
    \<and> serve IrisType ws now (Post_models ty p) request =
       Inr [(''message'', PStr ''OK''),
            (''method'', PStr (http_method request)),
            (''status-code'', PInt 200),
            (''timestamp'', PStr now),
            (''url'', PStr (url request)),
            (''data'', PDict
               [(''model-type'', PStr ty),
                (''features'', PDict
                   [(''sepal_length'', PFloat (sepal_length p)),
                    (''sepal_width'', PFloat (sepal_width p)),
                    (''petal_length'', PFloat (petal_length p)),
                    (''petal_width'', PFloat (petal_width p))]),
                (''prediction'', PInt i),
                (''predicted_type'', PStr label)])]"
proof -
  from assms(1) have "ty \<in> type ` set ws"
    using find_model_wrapper_type by force
  moreover from assms(3) have "label \<in> ran IrisType"
    by (auto simp: ran_def)
  moreover have "serve IrisType ws now (Post_models ty p) request = Inr
       [(''message'', PStr ''OK''),
            (''method'', PStr (http_method request)),
            (''status-code'', PInt 200),
            (''timestamp'', PStr now),
            (''url'', PStr (url request)),
            (''data'', PDict
               [(''model-type'', PStr ty),
                (''features'', PDict
                   [(''sepal_length'', PFloat (sepal_length p)),
                    (''sepal_width'', PFloat (sepal_width p)),
                    (''petal_length'', PFloat (petal_length p)),
                    (''petal_width'', PFloat (petal_width p))]),
                (''prediction'', PInt i),
                (''predicted_type'', PStr label)])]"
    using predict_found [where IrisType = IrisType and request = request, OF assms]
    by (simp add: serve_def construct_response_def getitem_def has_key_def)
  ultimately show ?thesis by blast
qed

theorem predict_present_ok_witness:
  "find_model_wrapper [wrapper_example ''svc'' (Inr [2]), wrapper_example ''tree'' (Inr [1])] ''tree''
     = Some (wrapper_example ''tree'' (Inr [1]))
   \<and> model (wrapper_example ''tree'' (Inr [1])) [[5.1, 3.5, 1.4, 0.2]] = Inr [1]
   \<and> iris_example 1 = Some ''versicolor''
   \<and> ''versicolor'' \<in> ran iris_example
   \<and> serve iris_example [wrapper_example ''svc'' (Inr [2]), wrapper_example ''tree'' (Inr [1])]
       ''2021-11-04T10:00:00'' (Post_models ''tree'' payload_example)
       (request_example ''POST'' ''http://localhost:5000/models/tree'') =
       Inr [(''message'', PStr ''OK''),
            (''method'', PStr ''POST''),
            (''status-code'', PInt 200),
            (''timestamp'', PStr ''2021-11-04T10:00:00''),
            (''url'', PStr ''http://localhost:5000/models/tree''),
            (''data'', PDict
               [(''model-type'', PStr ''tree''),
                (''features'', PDict
                   [(''sepal_length'', PFloat 5.1),
                    (''sepal_width'', PFloat 3.5),
                    (''petal_length'', PFloat 1.4),
                    (''petal_width'', PFloat 0.2)]),
                (''prediction'', PInt 1),
                (''predicted_type'', PStr ''versicolor'')])]"
proof -
  let ?ws = "[wrapper_example ''svc'' (Inr [2]), wrapper_example ''tree'' (Inr [1])]"
  have h1: "find_model_wrapper ?ws ''tree'' = Some (wrapper_example ''tree'' (Inr [1]))"
    by (simp add: find_model_wrapper_def wrapper_example_def)
  have h2: "model (wrapper_example ''tree'' (Inr [1]))
      [[sepal_length payload_example, sepal_width payload_example,
        petal_length payload_example, petal_width payload_example]] = Inr (1 # [])"
    by (simp add: wrapper_example_def)
  have h3: "iris_example 1 = Some ''versicolor''"
    by (simp add: iris_example_def)
  have h2': "model (wrapper_example ''tree'' (Inr [1])) [[5.1, 3.5, 1.4, 0.2]] = Inr [1]"
    by (simp add: wrapper_example_def)
  from predict_present_ok [where IrisType = iris_example
      and now = "''2021-11-04T10:00:00''"
      and request = "request_example ''POST'' ''http://localhost:5000/models/tree''",
      OF h1 h2 h3] h1 h2' h3
  show ?thesis
    by (simp add: payload_example_def request_example_def)
qed

text \<open>
  C2, as stated, fails: for a type that no wrapper of the registry has, the response of
  \<open>POST /models/{type}\<close> does not have the status 400.  The route has no \<open>status_code\<close>
  and the handler returns a dictionary, so the response has the status 200; the 400 is
  the field \<open>status-code\<close> of its body.
\<close>

theorem predict_absent_counterexample:
  "''forest'' \<notin> type ` set [wrapper_example ''tree'' (Inr [1])]
   \<and> respond iris_example [wrapper_example ''tree'' (Inr [1])] ''2021-11-04T10:00:00''
       (Post_models ''forest'' payload_example)
       (request_example ''POST'' ''http://localhost:5000/models/forest'')
     = Inr (200,
            [(''message'', PStr ''Model not found''),
             (''method'', PStr ''POST''),
             (''status-code'', PInt 400),
             (''timestamp'', PStr ''2021-11-04T10:00:00''),
             (''url'', PStr ''http://localhost:5000/models/forest'')])
   \<and> response_status
       (respond iris_example [wrapper_example ''tree'' (Inr [1])] ''2021-11-04T10:00:00''
          (Post_models ''forest'' payload_example)
          (request_example ''POST'' ''http://localhost:5000/models/forest''))
     \<noteq> Some (status_value BAD_REQUEST)"
  by (simp add: respond_def response_status_def serve_def construct_response_def predict_def
      find_model_wrapper_def wrapper_example_def request_example_def getitem_def has_key_def)

text \<open>
  C2, amended: when no wrapper of the registry has the requested type,
  \<open>POST /models/{type}\<close> does not raise; it returns an envelope with the message
  "Model not found", the field \<open>status-code\<close> 400 and the five fields of the decorator,
  without \<open>data\<close>.  The response that carries the envelope has the default status of the
  route, 200, and no server error.
\<close>

theorem predict_absent_bad_request:
  assumes "ty \<notin> type ` set ws"
  shows "serve IrisType ws now (Post_models ty p) request =
       Inr [(''message'', PStr ''Model not found''),
            (''method'', PStr (http_method request)),
            (''status-code'', PInt (status_value BAD_REQUEST)),
            (''timestamp'', PStr now),
            (''url'', PStr (url request))]
     \<and> status_value BAD_REQUEST = 400
     \<and> field ''data'' (serve IrisType ws now (Post_models ty p) request) = None
     \<and> respond IrisType ws now (Post_models ty p) request =
         Inr (200,
              [(''message'', PStr ''Model not found''),
               (''method'', PStr (http_method request)),
               (''status-code'', PInt 400),
               (''timestamp'', PStr now),
               (''url'', PStr (url request))])
     \<and> response_status (respond IrisType ws now (Post_models ty p) request) = Some 200"
proof -
  from assms have "find_model_wrapper ws ty = None"
    by (simp add: find_model_wrapper_None)
  then have pf: "predict IrisType ws request ty p =
     Inr [(''message'', PStr ''Model not found''), (''status-code'', PInt 400)]"
    by (rule predict_not_found)
  have sv: "serve IrisType ws now (Post_models ty p) request =
       Inr [(''message'', PStr ''Model not found''),
            (''method'', PStr (http_method request)),
            (''status-code'', PInt 400),
            (''timestamp'', PStr now),
            (''url'', PStr (url request))]"
    using pf by (simp add: serve_def construct_response_def getitem_def has_key_def)
  then have rs: "respond IrisType ws now (Post_models ty p) request =
         Inr (200,
              [(''message'', PStr ''Model not found''),
               (''method'', PStr (http_method request)),
               (''status-code'', PInt 400),
               (''timestamp'', PStr now),
               (''url'', PStr (url request))])"
    by (simp add: respond_def)
  then have "response_status (respond IrisType ws now (Post_models ty p) request) = Some 200"
    by (simp add: response_status_def)
  with sv rs show ?thesis by (simp add: field_def)
qed

theorem predict_absent_bad_request_witness:
  "''forest'' \<notin> type ` set [wrapper_example ''svc'' (Inr [2]), wrapper_example ''tree'' (Inr [1])]
   \<and> serve iris_example [wrapper_example ''svc'' (Inr [2]), wrapper_example ''tree'' (Inr [1])]
       ''2021-11-04T10:00:00'' (Post_models ''forest'' payload_example)
       (request_example ''POST'' ''http://localhost:5000/models/forest'') =
       Inr [(''message'', PStr ''Model not found''),
            (''method'', PStr ''POST''),
            (''status-code'', PInt 400),
            (''timestamp'', PStr ''2021-11-04T10:00:00''),
            (''url'', PStr ''http://localhost:5000/models/forest'')]
   \<and> response_status
       (respond iris_example [wrapper_example ''svc'' (Inr [2]), wrapper_example ''tree'' (Inr [1])]
          ''2021-11-04T10:00:00'' (Post_models ''forest'' payload_example)
          (request_example ''POST'' ''http://localhost:5000/models/forest'')) = Some 200"
proof -
  have h: "''forest'' \<notin> type ` set [wrapper_example ''svc'' (Inr [2]),
      wrapper_example ''tree'' (Inr [1])]"
    by (simp add: wrapper_example_def)
  from predict_absent_bad_request [where IrisType = iris_example
      and now = "''2021-11-04T10:00:00''" and p = payload_example
      and request = "request_example ''POST'' ''http://localhost:5000/models/forest''",
      OF h] h
  show ?thesis by (simp add: request_example_def response_status_def)
qed

text \<open>
  C3: for every registry, \<open>GET /models\<close> returns an envelope with the status code 200
  whose \<open>data\<close> is a list with one entry per wrapper, in the order of the registry; the
  entry of a wrapper is the dictionary with exactly the keys \<open>type\<close>, \<open>parameters\<close> (its
  \<open>params\<close>) and \<open>accuracy\<close> (its \<open>metrics\<close>), so it has no key for the model.  For the
  empty registry \<open>data\<close> is the empty list.
\<close>

theorem get_models_list_projection:
  "\<exists>entries.
     serve IrisType ws now Get_models request =
       Inr [(''message'', PStr ''OK''),
            (''method'', PStr (http_method request)),
            (''status-code'', PInt 200),
            (''timestamp'', PStr now),
            (''url'', PStr (url request)),
            (''data'', PList entries)]
     \<and> length entries = length ws
     \<and> entries = map (\<lambda>m. PDict [(''type'', PStr (type m)),
                                  (''parameters'', params m),
                                  (''accuracy'', metrics m)]) ws
     \<and> (\<forall>e \<in> set entries. \<exists>d. e = PDict d \<and> keys d = [''type'', ''parameters'', ''accuracy''])
     \<and> (ws = [] \<longrightarrow> entries = [])"
proof -
  let ?entries = "map (\<lambda>m. PDict [(''type'', PStr (type m)),
                                  (''parameters'', params m),
                                  (''accuracy'', metrics m)]) ws"
  have gm: "get_models_list ws request =
      Inr [(''message'', PStr ''OK''), (''status-code'', PInt 200), (''data'', PList ?entries)]"
    by (simp add: get_models_list_def)
  have "serve IrisType ws now Get_models request =
       Inr [(''message'', PStr ''OK''),
            (''method'', PStr (http_method request)),
            (''status-code'', PInt 200),
            (''timestamp'', PStr now),
            (''url'', PStr (url request)),
            (''data'', PList ?entries)]"
    using gm by (simp add: serve_def construct_response_def getitem_def has_key_def)
  moreover have "length ?entries = length ws" by simp
  moreover have "\<forall>e \<in> set ?entries. \<exists>d. e = PDict d
      \<and> keys d = [''type'', ''parameters'', ''accuracy'']"
    by (auto simp: keys_def)
  moreover have "ws = [] \<longrightarrow> ?entries = []" by simp
  ultimately show ?thesis by blast
qed

theorem get_models_list_projection_witness:
  "serve iris_example [wrapper_example ''svc'' (Inr [2]), wrapper_example ''tree'' (Inr [1])]
       ''2021-11-04T10:00:00'' Get_models (request_example ''GET'' ''http://localhost:5000/models'') =
       Inr [(''message'', PStr ''OK''),
            (''method'', PStr ''GET''),
            (''status-code'', PInt 200),
            (''timestamp'', PStr ''2021-11-04T10:00:00''),
            (''url'', PStr ''http://localhost:5000/models''),
            (''data'', PList
               [PDict [(''type'', PStr ''svc''),
                       (''parameters'', PDict [(''max_depth'', PInt 3)]),
                       (''accuracy'', PDict [(''accuracy'', PFloat 0.95)])],
                PDict [(''type'', PStr ''tree''),
                       (''parameters'', PDict [(''max_depth'', PInt 3)]),
                       (''accuracy'', PDict [(''accuracy'', PFloat 0.95)])]])]
   \<and> serve iris_example ([] :: real model_wrapper list)
       ''2021-11-04T10:00:00'' Get_models (request_example ''GET'' ''http://localhost:5000/models'') =
       Inr [(''message'', PStr ''OK''),
            (''method'', PStr ''GET''),
            (''status-code'', PInt 200),
            (''timestamp'', PStr ''2021-11-04T10:00:00''),
            (''url'', PStr ''http://localhost:5000/models''),
            (''data'', PList [])]"
  using get_models_list_projection [of iris_example
      "[wrapper_example ''svc'' (Inr [2]), wrapper_example ''tree'' (Inr [1])]"
      "''2021-11-04T10:00:00''" "request_example ''GET'' ''http://localhost:5000/models''"]
    get_models_list_projection [of iris_example "[] :: real model_wrapper list"
      "''2021-11-04T10:00:00''" "request_example ''GET'' ''http://localhost:5000/models''"]
  by (simp add: wrapper_example_def request_example_def)

text \<open>
  C4: whatever the route and the request, a returned envelope has the keys \<open>message\<close>,
  \<open>method\<close>, \<open>status-code\<close>, \<open>timestamp\<close> and \<open>url\<close>, in this order, followed by \<open>data\<close>
  exactly when the result of the handler has the key \<open>data\<close>; its \<open>method\<close> and \<open>url\<close> are
  those of the request.  When no envelope is returned, the handler has raised, which
  only the handler of \<open>POST /models/{type}\<close> can do.
\<close>

theorem envelope_fields:
  "case serve IrisType ws now c request of
     Inr env \<Rightarrow>
       (\<exists>results. handler IrisType ws c request = Inr results
          \<and> keys env = [''message'', ''method'', ''status-code'', ''timestamp'', ''url'']
                        @ (if has_key ''data'' results then [''data''] else [])
          \<and> map_of env ''method'' = Some (PStr (http_method request))
          \<and> map_of env ''url'' = Some (PStr (url request)))
   | Inl e \<Rightarrow> handler IrisType ws c request = Inl e \<and> (\<exists>ty p. c = Post_models ty p)"
proof (cases "serve IrisType ws now c request")
  case (Inl e)
  then have h: "handler IrisType ws c request = Inl e" by (rule serve_Inl)
  then have "\<exists>ty p. c = Post_models ty p" by (rule handler_Inl_post)
  with Inl h show ?thesis by simp
next
  case (Inr env)
  then have "construct_response (handler IrisType ws c) now request = Inr env"
    by (simp add: serve_def)
  from construct_response_Inr [OF this] obtain results message status_code
    where res: "handler IrisType ws c request = Inr results"
      and env: "env = [(''message'', message), (''method'', PStr (http_method request)),
                (''status-code'', status_code), (''timestamp'', PStr now),
                (''url'', PStr (url request))]
               @ (case map_of results ''data'' of None \<Rightarrow> [] | Some d \<Rightarrow> [(''data'', d)])"
    by blast
  from env have "keys env = [''message'', ''method'', ''status-code'', ''timestamp'', ''url'']
                        @ (if has_key ''data'' results then [''data''] else [])"
    by (simp add: keys_def has_key_def split: option.splits)
  moreover from env have "map_of env ''method'' = Some (PStr (http_method request))"
    by simp
  moreover from env have "map_of env ''url'' = Some (PStr (url request))"
    by simp
  ultimately show ?thesis using Inr res by simp
qed

theorem envelope_fields_witness:
  "(\<exists>env. serve iris_example [wrapper_example ''tree'' (Inr [1])] ''2021-11-04T10:00:00''
        Get_index (request_example ''GET'' ''http://localhost:5000/'') = Inr env
      \<and> keys env = [''message'', ''method'', ''status-code'', ''timestamp'', ''url'', ''data'']
      \<and> map_of env ''method'' = Some (PStr ''GET'')
      \<and> map_of env ''url'' = Some (PStr ''http://localhost:5000/''))
   \<and> (\<exists>env. serve iris_example [wrapper_example ''tree'' (Inr [1])] ''2021-11-04T10:00:00''
        (Post_models ''svc'' payload_example)
        (request_example ''POST'' ''http://localhost:5000/models/svc'') = Inr env
      \<and> keys env = [''message'', ''method'', ''status-code'', ''timestamp'', ''url'']
      \<and> map_of env ''method'' = Some (PStr ''POST'')
      \<and> map_of env ''url'' = Some (PStr ''http://localhost:5000/models/svc''))"
proof -
  let ?ws = "[wrapper_example ''tree'' (Inr [1])]"
  have s1: "\<exists>env. serve iris_example ?ws ''2021-11-04T10:00:00''
        Get_index (request_example ''GET'' ''http://localhost:5000/'') = Inr env"
    by (simp add: serve_def construct_response_def index_def getitem_def has_key_def)
  have h1: "handler iris_example ?ws Get_index
      (request_example ''GET'' ''http://localhost:5000/'') =
      Inr [(''message'', PStr ''OK''), (''status-code'', PInt 200),
           (''data'', PDict [(''message'',
              PStr ''Welcome to IRIS classifier! Please, read the `/docs`!'')])]"
    by (simp add: index_def)
  have s2: "\<exists>env. serve iris_example ?ws ''2021-11-04T10:00:00''
        (Post_models ''svc'' payload_example)
        (request_example ''POST'' ''http://localhost:5000/models/svc'') = Inr env"
    by (simp add: serve_def construct_response_def predict_def find_model_wrapper_def
        wrapper_example_def getitem_def has_key_def)
  have h2: "handler iris_example ?ws (Post_models ''svc'' payload_example)
      (request_example ''POST'' ''http://localhost:5000/models/svc'') =
      Inr [(''message'', PStr ''Model not found''), (''status-code'', PInt 400)]"
    by (simp add: predict_def find_model_wrapper_def wrapper_example_def)
  from s1 obtain env1 where e1: "serve iris_example ?ws ''2021-11-04T10:00:00''
        Get_index (request_example ''GET'' ''http://localhost:5000/'') = Inr env1" by blast
  from s2 obtain env2 where e2: "serve iris_example ?ws ''2021-11-04T10:00:00''
        (Post_models ''svc'' payload_example)
        (request_example ''POST'' ''http://localhost:5000/models/svc'') = Inr env2" by blast
  from envelope_fields [where IrisType = iris_example and ws = ?ws
      and now = "''2021-11-04T10:00:00''" and c = Get_index
      and request = "request_example ''GET'' ''http://localhost:5000/''"] e1 h1
  have c1: "keys env1 = [''message'', ''method'', ''status-code'', ''timestamp'', ''url'', ''data'']
      \<and> map_of env1 ''method'' = Some (PStr ''GET'')
      \<and> map_of env1 ''url'' = Some (PStr ''http://localhost:5000/'')"
    by (simp add: has_key_def request_example_def)
  from envelope_fields [where IrisType = iris_example and ws = ?ws
      and now = "''2021-11-04T10:00:00''" and c = "Post_models ''svc'' payload_example"
      and request = "request_example ''POST'' ''http://localhost:5000/models/svc''"] e2 h2
  have c2: "keys env2 = [''message'', ''method'', ''status-code'', ''timestamp'', ''url'']
      \<and> map_of env2 ''method'' = Some (PStr ''POST'')
      \<and> map_of env2 ''url'' = Some (PStr ''http://localhost:5000/models/svc'')"
    by (simp add: has_key_def request_example_def)
  from e1 c1 e2 c2 show ?thesis by blast
qed

text \<open>
  C5: when the lifespan starts without an exception from the empty list of the module,
  the registry holds the wrappers of the files with the suffix \<open>.pkl\<close>, in the order of
  the listing.  Any number of requests to the three routes leaves the application as it
  was after the startup, the registry included; the shutdown after them empties the
  registry.  In any state, a request changes nothing, and the only event that empties
  a registry that was not empty is the shutdown.
\<close>

theorem registry_read_only:
  assumes "lifespan_startup (Inr filenames) [] = (ws, None)"
    and "\<forall>ev \<in> set evs. is_request ev"
  shows "map Inr ws = map unpickled (filter (\<lambda>filename. suffix filename = ''.pkl'') filenames)
    \<and> run IrisType (Startup (Inr filenames) # evs) initial_app
        = \<lparr>model_wrappers_list = ws, phase = Serving\<rparr>
    \<and> run IrisType (Startup (Inr filenames) # evs @ [Shutdown]) initial_app
        = \<lparr>model_wrappers_list = [], phase = Stopped\<rparr>
    \<and> (\<forall>ev a. is_request ev \<longrightarrow> fst (app_step IrisType ev a) = (a :: 'f app))
    \<and> (\<forall>ev a. model_wrappers_list (fst (app_step IrisType ev (a :: 'f app))) = []
               \<and> model_wrappers_list a \<noteq> [] \<longrightarrow> ev = Shutdown)"
proof -
  from assms(1) have "load_models (filter (\<lambda>filename. suffix filename = ''.pkl'') filenames) []
      = (ws, None)" by (simp add: lifespan_startup_def)
  from load_models_success [OF this]
  have loaded: "map Inr ws
      = map unpickled (filter (\<lambda>filename. suffix filename = ''.pkl'') filenames)"
    by simp
  have started: "fst (app_step IrisType (Startup (Inr filenames)) initial_app)
      = \<lparr>model_wrappers_list = ws, phase = Serving\<rparr>"
    using assms(1) by (simp add: initial_app_def)
  have serving: "run IrisType (Startup (Inr filenames) # evs) initial_app
        = \<lparr>model_wrappers_list = ws, phase = Serving\<rparr>"
    using started run_requests [OF assms(2)] by simp
  have "run IrisType ((Startup (Inr filenames) # evs) @ [Shutdown]) initial_app
        = run IrisType [Shutdown] \<lparr>model_wrappers_list = ws, phase = Serving\<rparr>"
    unfolding run_append serving ..
  then have stopped: "run IrisType (Startup (Inr filenames) # evs @ [Shutdown]) initial_app
        = \<lparr>model_wrappers_list = [], phase = Stopped\<rparr>"
    by (simp add: lifespan_shutdown_def)
  have unchanged: "\<forall>ev a. is_request ev \<longrightarrow> fst (app_step IrisType ev a) = (a :: 'f app)"
    by (simp add: app_step_request)
  have cleared: "\<forall>ev a. model_wrappers_list (fst (app_step IrisType ev (a :: 'f app))) = []
               \<and> model_wrappers_list a \<noteq> [] \<longrightarrow> ev = Shutdown"
    using app_step_cleared by blast
  from loaded serving stopped unchanged cleared show ?thesis by blast
qed

theorem registry_read_only_witness:
  "lifespan_startup
     (Inr [pickle_example ''tree'' 1, corrupt_example ''.txt'', pickle_example ''svc'' 2]) []
     = ([wrapper_example ''tree'' (Inr [1]), wrapper_example ''svc'' (Inr [2])], None)
   \<and> is_request (Request ''2021-11-04T10:00:00'' Get_models
                      (request_example ''GET'' ''http://localhost:5000/models'') :: real event)
   \<and> is_request (Request ''2021-11-04T10:00:01'' (Post_models ''tree'' payload_example)
                      (request_example ''POST'' ''http://localhost:5000/models/tree''))
   \<and> run iris_example
        [Startup (Inr [pickle_example ''tree'' 1, corrupt_example ''.txt'',
                       pickle_example ''svc'' 2]),
         Request ''2021-11-04T10:00:00'' Get_models
           (request_example ''GET'' ''http://localhost:5000/models''),
         Request ''2021-11-04T10:00:01'' (Post_models ''tree'' payload_example)
           (request_example ''POST'' ''http://localhost:5000/models/tree'')]
        initial_app
      = \<lparr>model_wrappers_list = [wrapper_example ''tree'' (Inr [1]),
                                  wrapper_example ''svc'' (Inr [2])],
         phase = Serving\<rparr>
   \<and> run iris_example
        [Startup (Inr [pickle_example ''tree'' 1, corrupt_example ''.txt'',
                       pickle_example ''svc'' 2]),
         Request ''2021-11-04T10:00:00'' Get_models
           (request_example ''GET'' ''http://localhost:5000/models''),
         Request ''2021-11-04T10:00:01'' (Post_models ''tree'' payload_example)
           (request_example ''POST'' ''http://localhost:5000/models/tree''),
         Shutdown]
        initial_app
      = \<lparr>model_wrappers_list = [], phase = Stopped\<rparr>"
proof -
  let ?files = "[pickle_example ''tree'' 1, corrupt_example ''.txt'', pickle_example ''svc'' 2]"
  let ?evs = "[Request ''2021-11-04T10:00:00'' Get_models
                 (request_example ''GET'' ''http://localhost:5000/models''),
               Request ''2021-11-04T10:00:01'' (Post_models ''tree'' payload_example)
                 (request_example ''POST'' ''http://localhost:5000/models/tree'')]"
  have h1: "lifespan_startup (Inr ?files) []
     = ([wrapper_example ''tree'' (Inr [1]), wrapper_example ''svc'' (Inr [2])], None)"
    by (simp add: lifespan_startup_def pickle_example_def corrupt_example_def)
  have h2: "\<forall>ev \<in> set ?evs. is_request ev"
    by simp
  note t = registry_read_only [where IrisType = iris_example, OF h1 h2]
  from t have c2: "run iris_example (Startup (Inr ?files) # ?evs) initial_app
      = \<lparr>model_wrappers_list = [wrapper_example ''tree'' (Inr [1]),
                                  wrapper_example ''svc'' (Inr [2])],
         phase = Serving\<rparr>"
    by blast
  from t have "run iris_example (Startup (Inr ?files) # ?evs @ [Shutdown]) initial_app
      = \<lparr>model_wrappers_list = [], phase = Stopped\<rparr>"
    by blast
  then have c3: "run iris_example
        [Startup (Inr ?files),
         Request ''2021-11-04T10:00:00'' Get_models
           (request_example ''GET'' ''http://localhost:5000/models''),
         Request ''2021-11-04T10:00:01'' (Post_models ''tree'' payload_example)
           (request_example ''POST'' ''http://localhost:5000/models/tree''),
         Shutdown]
        initial_app
      = \<lparr>model_wrappers_list = [], phase = Stopped\<rparr>"
    by (simp only: append.simps)
  from h1 c2 c3 show ?thesis by simp
qed

text \<open>
  C6: when one of the files with the suffix \<open>.pkl\<close> cannot be unpickled, the lifespan
  raises before its \<open>yield\<close>: the exception is that of the first such file in the order
  of the listing.  The application is then in the phase \<open>Failed\<close>; it answers no
  request and no later event brings it to the phase \<open>Serving\<close>.
\<close>

theorem lifespan_fails_fast:
  assumes "f \<in> set filenames"
    and "suffix f = ''.pkl''"
    and "unpickled f = Inl e"
  shows "\<exists>g e'.
      find (\<lambda>q. isl (unpickled q)) (filter (\<lambda>filename. suffix filename = ''.pkl'') filenames)
        = Some g
    \<and> unpickled g = Inl e'
    \<and> snd (lifespan_startup (Inr filenames) ws) = Some e'
    \<and> phase (fst (app_step IrisType (Startup (Inr filenames)) initial_app)) = Failed e'
    \<and> (\<forall>now c request.
          snd (app_step IrisType (Request now c request)
                 (fst (app_step IrisType (Startup (Inr filenames)) initial_app))) = None)
    \<and> (\<forall>evs. phase (run IrisType (Startup (Inr filenames) # evs) initial_app) = Failed e')"
proof -
  let ?paths = "filter (\<lambda>filename. suffix filename = ''.pkl'') filenames"
  let ?failed = "fst (app_step IrisType (Startup (Inr filenames)) (initial_app :: 'a app))"
  from assms have "f \<in> set ?paths \<and> isl (unpickled f)" by simp
  then have "find (\<lambda>q. isl (unpickled q)) ?paths \<noteq> None"
    by (auto simp: find_None_iff)
  then obtain g where g: "find (\<lambda>q. isl (unpickled q)) ?paths = Some g" by blast
  then have "isl (unpickled g)" by (auto simp: find_Some_iff)
  then obtain e' where e': "unpickled g = Inl e'" by (cases "unpickled g") simp_all
  have err: "snd (lifespan_startup (Inr filenames) ws') = Some e'" for ws'
    using g e' by (simp add: lifespan_startup_def load_models_error)
  have ph: "phase ?failed = Failed e'"
    using err [of "[]"]
    by (cases "lifespan_startup (Inr filenames) ([] :: 'a model_wrapper list)")
       (auto simp: initial_app_def split: option.splits)
  then have nosrv: "\<forall>now c request.
      snd (app_step IrisType (Request now c request) ?failed) = None"
    by simp
  have "\<forall>evs. phase (run IrisType (Startup (Inr filenames) # evs) initial_app) = Failed e'"
    using ph run_not_serving [of ?failed IrisType] by simp
  with g e' err [of ws] ph nosrv show ?thesis by blast
qed

theorem lifespan_fails_fast_witness:
  "corrupt_example ''.pkl''
     \<in> set [pickle_example ''tree'' 1, corrupt_example ''.pkl'', pickle_example ''svc'' 2]
   \<and> suffix (corrupt_example ''.pkl'') = ''.pkl''
   \<and> unpickled (corrupt_example ''.pkl'') = Inl (Exception ''invalid load key'')
   \<and> lifespan_startup
       (Inr [pickle_example ''tree'' 1, corrupt_example ''.pkl'', pickle_example ''svc'' 2]) []
     = ([wrapper_example ''tree'' (Inr [1])], Some (Exception ''invalid load key''))
   \<and> phase (run iris_example
        [Startup (Inr [pickle_example ''tree'' 1, corrupt_example ''.pkl'',
                       pickle_example ''svc'' 2]),
         Request ''2021-11-04T10:00:00'' Get_models
           (request_example ''GET'' ''http://localhost:5000/models'')]
        initial_app) = Failed (Exception ''invalid load key'')"
proof -
  let ?files = "[pickle_example ''tree'' 1, corrupt_example ''.pkl'', pickle_example ''svc'' 2]"
  have h1: "corrupt_example ''.pkl'' \<in> set ?files" by simp
  have h2: "suffix (corrupt_example ''.pkl'') = ''.pkl''"
    by (simp add: corrupt_example_def)
  have h3: "unpickled (corrupt_example ''.pkl'') = Inl (Exception ''invalid load key'')"
    by (simp add: corrupt_example_def)
  have st: "lifespan_startup (Inr ?files) []
     = ([wrapper_example ''tree'' (Inr [1])], Some (Exception ''invalid load key''))"
    by (simp add: lifespan_startup_def pickle_example_def corrupt_example_def)
  from lifespan_fails_fast [where IrisType = iris_example
      and ws = "[] :: real model_wrapper list", OF h1 h2 h3]
  obtain e' where a: "snd (lifespan_startup (Inr ?files) ([] :: real model_wrapper list)) = Some e'"
    and b: "\<forall>evs. phase (run iris_example (Startup (Inr ?files) # evs) initial_app) = Failed e'"
    by blast
  from a st have "e' = Exception ''invalid load key''" by simp
  with b have "phase (run iris_example
        [Startup (Inr ?files),
         Request ''2021-11-04T10:00:00'' Get_models
           (request_example ''GET'' ''http://localhost:5000/models'')]
        initial_app) = Failed (Exception ''invalid load key'')"
    by blast
  with h1 h2 h3 st show ?thesis by blast
qed

text \<open>
  C7: the lookup of line 128 answers \<open>None\<close> exactly when no wrapper has the requested
  type, and otherwise the wrapper at the least position of the list whose type is the
  requested one; these are all its outcomes, it has no exception.  When a wrapper of
  the type is preceded only by wrappers of other types, whatever follows it (also
  wrappers of the same type), \<open>POST /models/{type}\<close> answers as if the registry held that
  wrapper alone.
\<close>

theorem lookup_first_match:
  "(find_model_wrapper ws ty = None \<longleftrightarrow> ty \<notin> type ` set ws)
   \<and> (\<forall>m. find_model_wrapper ws ty = Some m \<longleftrightarrow>
          (\<exists>i<length ws. ws ! i = m \<and> type m = ty \<and> (\<forall>j<i. type (ws ! j) \<noteq> ty)))
   \<and> (\<forall>pre m post. ws = pre @ m # post \<and> (\<forall>x \<in> set pre. type x \<noteq> ty) \<and> type m = ty \<longrightarrow>
          find_model_wrapper ws ty = Some m
          \<and> serve IrisType ws now (Post_models ty p) request
              = serve IrisType [m] now (Post_models ty p) request)"
proof (intro conjI allI impI)
  show "find_model_wrapper ws ty = None \<longleftrightarrow> ty \<notin> type ` set ws"
    by (rule find_model_wrapper_None)
next
  fix m
  show "find_model_wrapper ws ty = Some m \<longleftrightarrow>
          (\<exists>i<length ws. ws ! i = m \<and> type m = ty \<and> (\<forall>j<i. type (ws ! j) \<noteq> ty))"
    unfolding find_model_wrapper_def find_Some_iff by blast
next
  fix pre m post
  assume a: "ws = pre @ m # post \<and> (\<forall>x \<in> set pre. type x \<noteq> ty) \<and> type m = ty"
  then show f: "find_model_wrapper ws ty = Some m"
    by (simp add: find_model_wrapper_first)
  from a have "find_model_wrapper [m] ty = Some m"
    by (simp add: find_model_wrapper_def)
  with f have "predict IrisType ws request ty p = predict IrisType [m] request ty p"
    by (simp add: predict_cong)
  then show "serve IrisType ws now (Post_models ty p) request
              = serve IrisType [m] now (Post_models ty p) request"
    by (simp add: serve_def construct_response_def)
qed

theorem lookup_first_match_witness:
  "find_model_wrapper [wrapper_example ''svc'' (Inr [2]), wrapper_example ''tree'' (Inr [1]),
      wrapper_example ''tree'' (Inr [0])] ''tree'' = Some (wrapper_example ''tree'' (Inr [1]))
   \<and> find_model_wrapper [wrapper_example ''svc'' (Inr [2]), wrapper_example ''tree'' (Inr [1]),
      wrapper_example ''tree'' (Inr [0])] ''forest'' = None
   \<and> data_field ''prediction''
       (serve iris_example [wrapper_example ''svc'' (Inr [2]), wrapper_example ''tree'' (Inr [1]),
          wrapper_example ''tree'' (Inr [0])] ''2021-11-04T10:00:00''
          (Post_models ''tree'' payload_example)
          (request_example ''POST'' ''http://localhost:5000/models/tree'')) = Some (PInt 1)"
proof -
  let ?ws = "[wrapper_example ''svc'' (Inr [2]), wrapper_example ''tree'' (Inr [1]),
      wrapper_example ''tree'' (Inr [0])]"
  let ?now = "''2021-11-04T10:00:00''"
  let ?rq = "request_example ''POST'' ''http://localhost:5000/models/tree''"
  have split: "?ws = [wrapper_example ''svc'' (Inr [2])] @ wrapper_example ''tree'' (Inr [1])
      # [wrapper_example ''tree'' (Inr [0])]
    \<and> (\<forall>x \<in> set [wrapper_example ''svc'' (Inr [2])]. type x \<noteq> ''tree'')
    \<and> type (wrapper_example ''tree'' (Inr [1])) = ''tree''"
    by (simp add: wrapper_example_def)
  have absent: "''forest'' \<notin> type ` set ?ws"
    by (simp add: wrapper_example_def)
  have one: "data_field ''prediction''
      (serve iris_example [wrapper_example ''tree'' (Inr [1])] ?now
         (Post_models ''tree'' payload_example) ?rq) = Some (PInt 1)"
    by (simp add: serve_def construct_response_def predict_def find_model_wrapper_def
        wrapper_example_def iris_example_def getitem_def has_key_def data_field_def field_def)
  note t = lookup_first_match [where ws = ?ws and ty = "''tree''"
      and IrisType = iris_example and now = ?now and p = payload_example and request = ?rq]
  note u = lookup_first_match [where ws = ?ws and ty = "''forest''"
      and IrisType = iris_example and now = ?now and p = payload_example and request = ?rq]
  from t split have "find_model_wrapper ?ws ''tree'' = Some (wrapper_example ''tree'' (Inr [1]))
      \<and> serve iris_example ?ws ?now (Post_models ''tree'' payload_example) ?rq
        = serve iris_example [wrapper_example ''tree'' (Inr [1])] ?now
            (Post_models ''tree'' payload_example) ?rq"
    by blast
  moreover from u absent have "find_model_wrapper ?ws ''forest'' = None" by blast
  ultimately show ?thesis using one by simp
qed

text \<open>
  C8: the class index and the label in the \<open>data\<close> of \<open>POST /models/{type}\<close> depend on the
  registry, the type and the payload only.  Two requests with the same type and the
  same payload against the same registry, whatever their request objects and the
  times at which they are handled, have the same \<open>prediction\<close> and the same
  \<open>predicted_type\<close>, and one raises exactly when the other does.
\<close>

theorem predict_deterministic:
  "data_field ''prediction'' (serve IrisType ws now (Post_models ty p) request)
     = data_field ''prediction'' (serve IrisType ws now' (Post_models ty p) request')
   \<and> data_field ''predicted_type'' (serve IrisType ws now (Post_models ty p) request)
     = data_field ''predicted_type'' (serve IrisType ws now' (Post_models ty p) request')
   \<and> (\<forall>e. serve IrisType ws now (Post_models ty p) request = Inl e
        \<longleftrightarrow> serve IrisType ws now' (Post_models ty p) request' = Inl e)"
  using serve_post_request [where IrisType = IrisType and ws = ws and now = now and ty = ty
      and p = p and request = request and now' = now' and request' = request']
  by (simp add: data_field_def)

theorem predict_deterministic_witness:
  "data_field ''prediction''
       (serve iris_example [wrapper_example ''tree'' (Inr [1])] ''2021-11-04T10:00:00''
          (Post_models ''tree'' payload_example)
          (request_example ''POST'' ''http://localhost:5000/models/tree'')) = Some (PInt 1)
   \<and> data_field ''prediction''
       (serve iris_example [wrapper_example ''tree'' (Inr [1])] ''2021-11-05T18:30:00''
          (Post_models ''tree'' payload_example)
          (request_example ''POST'' ''http://127.0.0.1:5000/models/tree'')) = Some (PInt 1)
   \<and> data_field ''predicted_type''
       (serve iris_example [wrapper_example ''tree'' (Inr [1])] ''2021-11-04T10:00:00''
          (Post_models ''tree'' payload_example)
          (request_example ''POST'' ''http://localhost:5000/models/tree'')) = Some (PStr ''versicolor'')
   \<and> data_field ''predicted_type''
       (serve iris_example [wrapper_example ''tree'' (Inr [1])] ''2021-11-05T18:30:00''
          (Post_models ''tree'' payload_example)
          (request_example ''POST'' ''http://127.0.0.1:5000/models/tree'')) = Some (PStr ''versicolor'')"
proof -
  let ?ws = "[wrapper_example ''tree'' (Inr [1])]"
  have one: "data_field ''prediction''
       (serve iris_example ?ws ''2021-11-04T10:00:00''
          (Post_models ''tree'' payload_example)
          (request_example ''POST'' ''http://localhost:5000/models/tree'')) = Some (PInt 1)
     \<and> data_field ''predicted_type''
       (serve iris_example ?ws ''2021-11-04T10:00:00''
          (Post_models ''tree'' payload_example)
          (request_example ''POST'' ''http://localhost:5000/models/tree'')) = Some (PStr ''versicolor'')"
    by (simp add: serve_def construct_response_def predict_def find_model_wrapper_def
        wrapper_example_def iris_example_def getitem_def has_key_def data_field_def field_def)
  from predict_deterministic [where IrisType = iris_example and ws = ?ws
      and now = "''2021-11-04T10:00:00''" and ty = "''tree''" and p = payload_example
      and request = "request_example ''POST'' ''http://localhost:5000/models/tree''"
      and now' = "''2021-11-05T18:30:00''"
      and request' = "request_example ''POST'' ''http://127.0.0.1:5000/models/tree''"]
    one
  show ?thesis by simp
qed

text \<open>
  C9: in an envelope of \<open>POST /models/{type}\<close> with the status code 200, the \<open>features\<close>
  of \<open>data\<close> are the four fields of the payload under their own names, unchanged.
\<close>

theorem features_echo:
  assumes "serve IrisType ws now (Post_models ty p) request = Inr env"
    and "map_of env ''status-code'' = Some (PInt (status_value OK))"
  shows "data_field ''features'' (Inr env) =
     Some (PDict [(''sepal_length'', PFloat (sepal_length p)),
                  (''sepal_width'', PFloat (sepal_width p)),
                  (''petal_length'', PFloat (petal_length p)),
                  (''petal_width'', PFloat (petal_width p))])"
proof -
  from assms(1) have "construct_response (handler IrisType ws (Post_models ty p)) now request
      = Inr env" by (simp add: serve_def)
  from construct_response_Inr [OF this] obtain results message status_code
    where res: "predict IrisType ws request ty p = Inr results"
      and sc: "map_of results ''status-code'' = Some status_code"
      and env: "env = [(''message'', message), (''method'', PStr (http_method request)),
                (''status-code'', status_code), (''timestamp'', PStr now),
                (''url'', PStr (url request))]
               @ (case map_of results ''data'' of None \<Rightarrow> [] | Some d \<Rightarrow> [(''data'', d)])"
    by auto
  from env assms(2) have ok: "status_code = PInt 200" by simp
  from predict_Inr_cases [OF res] show ?thesis
  proof
    assume "find_model_wrapper ws ty = None
          \<and> results = [(''message'', PStr ''Model not found''), (''status-code'', PInt 400)]"
    with sc ok show ?thesis by simp
  next
    assume "\<exists>m i rest label. find_model_wrapper ws ty = Some m
            \<and> model m [[sepal_length p, sepal_width p, petal_length p, petal_width p]]
                = Inr (i # rest)
            \<and> IrisType i = Some label
            \<and> results =
               [(''message'', PStr ''OK''),
                (''status-code'', PInt 200),
                (''data'', PDict
                   [(''model-type'', PStr ty),
                    (''features'', PDict
                       [(''sepal_length'', PFloat (sepal_length p)),
                        (''sepal_width'', PFloat (sepal_width p)),
                        (''petal_length'', PFloat (petal_length p)),
                        (''petal_width'', PFloat (petal_width p))]),
                    (''prediction'', PInt i),
                    (''predicted_type'', PStr label)])]"
    then obtain i label where "results =
               [(''message'', PStr ''OK''),
                (''status-code'', PInt 200),
                (''data'', PDict
                   [(''model-type'', PStr ty),
                    (''features'', PDict
                       [(''sepal_length'', PFloat (sepal_length p)),
                        (''sepal_width'', PFloat (sepal_width p)),
                        (''petal_length'', PFloat (petal_length p)),
                        (''petal_width'', PFloat (petal_width p))]),
                    (''prediction'', PInt i),
                    (''predicted_type'', PStr label)])]" by blast
    with env show ?thesis by (simp add: data_field_def field_def)
  qed
qed

theorem features_echo_witness:
  "(\<exists>env. serve iris_example [wrapper_example ''tree'' (Inr [1])] ''2021-11-04T10:00:00''
        (Post_models ''tree'' payload_example)
        (request_example ''POST'' ''http://localhost:5000/models/tree'') = Inr env
      \<and> map_of env ''status-code'' = Some (PInt (status_value OK))
      \<and> data_field ''features'' (Inr env) =
          Some (PDict [(''sepal_length'', PFloat 5.1), (''sepal_width'', PFloat 3.5),
                       (''petal_length'', PFloat 1.4), (''petal_width'', PFloat 0.2)]))"
proof -
  let ?env = "[(''message'', PStr ''OK''),
            (''method'', PStr ''POST''),
            (''status-code'', PInt 200),
            (''timestamp'', PStr ''2021-11-04T10:00:00''),
            (''url'', PStr ''http://localhost:5000/models/tree''),
            (''data'', PDict
               [(''model-type'', PStr ''tree''),
                (''features'', PDict
                   [(''sepal_length'', PFloat 5.1),
                    (''sepal_width'', PFloat 3.5),
                    (''petal_length'', PFloat 1.4),
                    (''petal_width'', PFloat 0.2)]),
                (''prediction'', PInt 1),
                (''predicted_type'', PStr ''versicolor'')])] :: real dict"
  have h1: "serve iris_example [wrapper_example ''tree'' (Inr [1])] ''2021-11-04T10:00:00''
        (Post_models ''tree'' payload_example)
        (request_example ''POST'' ''http://localhost:5000/models/tree'') = Inr ?env"
    by (simp add: serve_def construct_response_def predict_def find_model_wrapper_def
        wrapper_example_def iris_example_def payload_example_def request_example_def
        getitem_def has_key_def)
  have h2: "map_of ?env ''status-code'' = Some (PInt (status_value OK))"
    by simp
  from features_echo [OF h1 h2] have "data_field ''features'' (Inr ?env) =
          Some (PDict [(''sepal_length'', PFloat 5.1), (''sepal_width'', PFloat 3.5),
                       (''petal_length'', PFloat 1.4), (''petal_width'', PFloat 0.2)])"
    by (simp add: payload_example_def)
  with h1 h2 show ?thesis by blast
qed

text \<open>
  C10: the handler of \<open>POST /models/{type}\<close> has no error boundary.  When the classifier
  of the matched wrapper raises, the route raises the same exception; when it answers
  with a class index that is no member of the enumeration, the route raises the
  \<open>ValueError\<close> of \<open>IrisType\<close>.  In both cases no envelope is returned.
\<close>

theorem predict_failure_unhandled:
  assumes "find_model_wrapper ws ty = Some m"
  shows "(\<forall>e. model m [[sepal_length p, sepal_width p, petal_length p, petal_width p]] = Inl e
            \<longrightarrow> serve IrisType ws now (Post_models ty p) request = Inl e)
       \<and> (\<forall>i rest. model m [[sepal_length p, sepal_width p, petal_length p, petal_width p]]
                     = Inr (i # rest) \<and> IrisType i = None
            \<longrightarrow> serve IrisType ws now (Post_models ty p) request = Inl (ValueError i))"
  using assms
  by (simp add: serve_def construct_response_def predict_def)

theorem predict_failure_unhandled_witness:
  "find_model_wrapper [wrapper_example ''tree'' (Inr [7])] ''tree''
     = Some (wrapper_example ''tree'' (Inr [7]))
   \<and> model (wrapper_example ''tree'' (Inr [7])) [[5.1, 3.5, 1.4, 0.2]] = Inr [7]
   \<and> iris_example 7 = None
   \<and> serve iris_example [wrapper_example ''tree'' (Inr [7])] ''2021-11-04T10:00:00''
       (Post_models ''tree'' payload_example)
       (request_example ''POST'' ''http://localhost:5000/models/tree'') = Inl (ValueError 7)
   \<and> find_model_wrapper [wrapper_example ''svc'' (Inl (Exception ''X has 4 features''))] ''svc''
     = Some (wrapper_example ''svc'' (Inl (Exception ''X has 4 features'')))
   \<and> model (wrapper_example ''svc'' (Inl (Exception ''X has 4 features''))) [[5.1, 3.5, 1.4, 0.2]]
     = Inl (Exception ''X has 4 features'')
   \<and> serve iris_example [wrapper_example ''svc'' (Inl (Exception ''X has 4 features''))]
       ''2021-11-04T10:00:00'' (Post_models ''svc'' payload_example)
       (request_example ''POST'' ''http://localhost:5000/models/svc'')
     = Inl (Exception ''X has 4 features'')"
proof -
  let ?w1 = "wrapper_example ''tree'' (Inr [7])"
  let ?w2 = "wrapper_example ''svc'' (Inl (Exception ''X has 4 features''))"
  have f1: "find_model_wrapper [?w1] ''tree'' = Some ?w1"
    by (simp add: find_model_wrapper_def wrapper_example_def)
  have f2: "find_model_wrapper [?w2] ''svc'' = Some ?w2"
    by (simp add: find_model_wrapper_def wrapper_example_def)
  have m1: "model ?w1 [[5.1, 3.5, 1.4, 0.2]] = Inr [7]"
    by (simp add: wrapper_example_def)
  have m2: "model ?w2 [[5.1, 3.5, 1.4, 0.2]] = Inl (Exception ''X has 4 features'')"
    by (simp add: wrapper_example_def)
  have i7: "iris_example 7 = None"
    by (simp add: iris_example_def)
  from predict_failure_unhandled [where IrisType = iris_example and p = payload_example
      and now = "''2021-11-04T10:00:00''"
      and request = "request_example ''POST'' ''http://localhost:5000/models/tree''", OF f1]
    m1 i7
  have r1: "serve iris_example [?w1] ''2021-11-04T10:00:00''
       (Post_models ''tree'' payload_example)
       (request_example ''POST'' ''http://localhost:5000/models/tree'') = Inl (ValueError 7)"
    by (simp add: payload_example_def)
  from predict_failure_unhandled [where IrisType = iris_example and p = payload_example
      and now = "''2021-11-04T10:00:00''"
      and request = "request_example ''POST'' ''http://localhost:5000/models/svc''", OF f2]
    m2
  have r2: "serve iris_example [?w2] ''2021-11-04T10:00:00''
       (Post_models ''svc'' payload_example)
       (request_example ''POST'' ''http://localhost:5000/models/svc'')
     = Inl (Exception ''X has 4 features'')"
    by (simp add: payload_example_def)
  from f1 m1 i7 r1 f2 m2 r2 show ?thesis by blast
qed

end
